theory Spec2Isabelle
  imports Complex_Main
begin

section \<open>Values of the flight frames\<close>

text \<open>
  The analyzer of \<^verbatim>\<open>schiphol_analyzer.py\<close> works row by row on a pandas frame. The
  numeric columns \<^verbatim>\<open>latitude\<close>, \<^verbatim>\<open>longitude\<close> and \<^verbatim>\<open>baro_altitude\<close> are
  float columns (the fetcher coerces them with \<^verbatim>\<open>pd.to_numeric(..., errors='coerce')\<close>),
  so a value that is missing in the feed is the cell NaN. Floats are idealised as real
  numbers.

  An altitude or noise cell is a number or NaN. No step of the code fails on an
  infinite altitude (it is compared and capped like a large number), and such cells are
  left out.
\<close>

datatype cell = NaN | Num real

text \<open>\<^verbatim>\<open>pd.isna\<close> on a float cell.\<close>

fun isna :: "cell \<Rightarrow> bool" where
  "isna NaN = True"
| "isna (Num _) = False"

text \<open>
  The float in a cell that \<^verbatim>\<open>pd.isna\<close> has let through; the code reads a cell as a
  number only behind that test.
\<close>

fun num :: "cell \<Rightarrow> real" where
  "num (Num a) = a"

text \<open>
  Comparisons of a float cell with a number, as Python evaluates them: every comparison
  with NaN is false.
\<close>

fun cell_lt :: "cell \<Rightarrow> real \<Rightarrow> bool" where
  "cell_lt NaN _ = False"
| "cell_lt (Num a) c = (a < c)"

fun cell_ge :: "cell \<Rightarrow> real \<Rightarrow> bool" where
  "cell_ge NaN _ = False"
| "cell_ge (Num a) c = (c \<le> a)"

text \<open>
  A coordinate cell is NaN, a number of degrees, or an infinity: \<^verbatim>\<open>pd.isna\<close> lets an
  infinity through, and \<^verbatim>\<open>math.sin\<close> and \<^verbatim>\<open>math.cos\<close> reject it.
\<close>

datatype coord = CoordNaN | Coord real | CoordPosInf | CoordNegInf

text \<open>\<^verbatim>\<open>pd.isna\<close> on a coordinate cell.\<close>

fun coord_isna :: "coord \<Rightarrow> bool" where
  "coord_isna CoordNaN = True"
| "coord_isna (Coord _) = False"
| "coord_isna CoordPosInf = False"
| "coord_isna CoordNegInf = False"

text \<open>\<^verbatim>\<open>math.isinf\<close>: the two infinities.\<close>

fun coord_isinf :: "coord \<Rightarrow> bool" where
  "coord_isinf CoordPosInf = True"
| "coord_isinf CoordNegInf = True"
| "coord_isinf CoordNaN = False"
| "coord_isinf (Coord _) = False"

text \<open>The degrees of a coordinate cell that holds a number.\<close>

fun deg :: "coord \<Rightarrow> real" where
  "deg (Coord a) = a"

text \<open>The exception the classification can meet.\<close>

datatype error = ValueError

text \<open>
  The column \<^verbatim>\<open>distance_km\<close> (and \<^verbatim>\<open>distance_to_schiphol_km\<close>): the sentinel
  \<^verbatim>\<open>float('inf')\<close> or a number of kilometres.
\<close>

datatype distance = Infinity | Km real

text \<open>The kilometres of a distance that is not the sentinel.\<close>

fun km :: "distance \<Rightarrow> real" where
  "km (Km d) = d"

section \<open>Rounding and the float remainder\<close>

text \<open>
  Python's \<^verbatim>\<open>round\<close> rounds a tie to the even neighbour; \<^verbatim>\<open>round(x, 1)\<close> keeps one
  decimal place.
\<close>

definition round_half_even :: "real \<Rightarrow> int" where
  "round_half_even x =
     (let f = \<lfloor>x\<rfloor>; d = x - of_int f
      in if d < 1 / 2 then f
         else if 1 / 2 < d then f + 1
         else if even f then f else f + 1)"

definition py_round1 :: "real \<Rightarrow> real" where
  "py_round1 x = of_int (round_half_even (x * 10)) / 10"

text \<open>Python's \<^verbatim>\<open>x % m\<close> on floats takes the sign of the divisor.\<close>

definition py_mod :: "real \<Rightarrow> real \<Rightarrow> real" where
  "py_mod x m = x - m * of_int \<lfloor>x / m\<rfloor>"

section \<open>Noise impact: \<^verbatim>\<open>calculate_noise_impact\<close>\<close>

text \<open>
  \<^verbatim>\<open>geodesic\<close> is geopy's ellipsoidal distance, a library function outside the
  repository: it is a parameter \<open>geo\<close> of the model. It is given the two coordinate
  cells as they are, and it answers with the kilometres or raises (geopy refuses a
  point that is not finite or whose latitude is out of range).
\<close>

definition calc_distance ::
  "(coord \<times> coord \<Rightarrow> real \<times> real \<Rightarrow> error + real) \<Rightarrow> real \<times> real \<Rightarrow> coord \<Rightarrow> coord
     \<Rightarrow> error + distance" where
  "calc_distance geo target_coords latitude longitude =
     (if coord_isna latitude \<or> coord_isna longitude then Inr Infinity
      else (case geo (latitude, longitude) target_coords of
              Inl e \<Rightarrow> Inl e
            | Inr kilometers \<Rightarrow> Inr (Km kilometers)))"

definition estimate_noise :: "cell \<Rightarrow> distance \<Rightarrow> real" where
  "estimate_noise baro_altitude distance_km =
     (if isna baro_altitude \<or> distance_km = Infinity then 0
      else
        let altitude_ft = max (num baro_altitude) 100;
            distance_km = max (km distance_km) (1 / 10);
            base_noise = 80;
            altitude_reduction = min (altitude_ft / 1000 * 5) 40;
            distance_reduction = min (distance_km * 2) 20;
            estimated_noise = max (base_noise - altitude_reduction - distance_reduction) 30
        in py_round1 estimated_noise)"

definition noise_impact_level :: "cell \<Rightarrow> string" where
  "noise_impact_level noise_db =
     (if cell_ge noise_db 65 then ''High Impact''
      else if cell_ge noise_db 55 then ''Moderate Impact''
      else if cell_ge noise_db 45 then ''Low Impact''
      else ''Minimal Impact'')"

section \<open>Schiphol operations: \<^verbatim>\<open>identify_schiphol_operations\<close>\<close>

definition schiphol_coords :: "real \<times> real" where
  "schiphol_coords = (523105 / 10000, 47683 / 10000)"

definition radians :: "real \<Rightarrow> real" where
  "radians x = x * pi / 180"

definition degrees :: "real \<Rightarrow> real" where
  "degrees x = x * 180 / pi"

text \<open>\<^verbatim>\<open>math.atan2\<close>, the angle of the point \<open>(x, y)\<close> in \<open>(-pi, pi]\<close>.\<close>

definition atan2 :: "real \<Rightarrow> real \<Rightarrow> real" where
  "atan2 y x =
     (if 0 < x then arctan (y / x)
      else if x < 0 then (if 0 \<le> y then arctan (y / x) + pi else arctan (y / x) - pi)
      else if 0 < y then pi / 2
      else if y < 0 then - (pi / 2)
      else 0)"

text \<open>
  \<^verbatim>\<open>math.radians\<close> and the subtraction keep an infinity infinite, and
  \<^verbatim>\<open>math.sin(dlon)\<close> or \<^verbatim>\<open>math.cos(lat2)\<close> then raises \<^verbatim>\<open>ValueError\<close> (math domain
  error): the second branch.
\<close>

definition bearing_from_schiphol :: "coord \<Rightarrow> coord \<Rightarrow> error + real option" where
  "bearing_from_schiphol latitude longitude =
     (if coord_isna latitude \<or> coord_isna longitude then Inr None
      else if coord_isinf latitude \<or> coord_isinf longitude then Inl ValueError
      else
        let lat1 = radians (fst schiphol_coords);
            lon1 = radians (snd schiphol_coords);
            lat2 = radians (deg latitude);
            lon2 = radians (deg longitude);
            dlon = lon2 - lon1;
            y = sin dlon * cos lat2;
            x = cos lat1 * sin lat2 - sin lat1 * cos lat2 * cos dlon;
            bearing = atan2 y x;
            bearing = degrees bearing;
            bearing = py_mod (bearing + 360) 360
        in Inr (Some (py_round1 bearing)))"

text \<open>
  \<^verbatim>\<open>classify_operation\<close> reads the altitude with \<^verbatim>\<open>row.get('baro_altitude', 0)\<close>: the
  argument is \<open>None\<close> when the frame has no such column, and the cell otherwise.
\<close>

definition classify_operation :: "distance \<Rightarrow> cell option \<Rightarrow> string" where
  "classify_operation distance baro_altitude =
     (let altitude = (case baro_altitude of None \<Rightarrow> Num 0 | Some c \<Rightarrow> c)
      in if distance = Infinity then ''Unknown''
         else if km distance < 5 then
           (if cell_lt altitude 1000 then ''Landing/Takeoff'' else ''Airport Vicinity'')
         else if km distance < 15 then
           (if cell_lt altitude 5000 then ''Approach/Departure'' else ''Transit (Low)'')
         else if km distance < 30 then
           (if cell_lt altitude 10000 then ''Extended Approach'' else ''Transit (Medium)'')
         else ''Transit (High)'')"

text \<open>
  \<^verbatim>\<open>approach_corridors\<close>: a dictionary, iterated in the order of its declaration, of
  the corridor's name and its \<^verbatim>\<open>bearing_range\<close>.
\<close>

definition approach_corridors :: "(string \<times> real \<times> real) list" where
  "approach_corridors =
     [(''north'', 315, 45),
      (''northeast'', 45, 90),
      (''east'', 90, 135),
      (''southeast'', 135, 180),
      (''south'', 180, 225),
      (''southwest'', 225, 270),
      (''west'', 270, 315)]"

fun corridor_loop :: "(string \<times> real \<times> real) list \<Rightarrow> real \<Rightarrow> string" where
  "corridor_loop [] bearing = ''Other''"
| "corridor_loop ((corridor_name, start, stop) # rest) bearing =
     (if start \<le> stop then
        (if start \<le> bearing \<and> bearing \<le> stop then corridor_name
         else corridor_loop rest bearing)
      else
        (if start \<le> bearing \<or> bearing \<le> stop then corridor_name
         else corridor_loop rest bearing))"

definition identify_corridor :: "real option \<Rightarrow> string" where
  "identify_corridor bearing =
     (case bearing of
        None \<Rightarrow> ''Unknown''
      | Some b \<Rightarrow> corridor_loop approach_corridors b)"

section \<open>One row through both passes\<close>

text \<open>
  \<^verbatim>\<open>analyze_residential_impact\<close> runs \<^verbatim>\<open>calculate_noise_impact\<close> and then
  \<^verbatim>\<open>identify_schiphol_operations\<close> on the frame; each adds its columns row by row
  with \<^verbatim>\<open>df.apply\<close>. A row of the input frame and the columns added to it; an
  exception raised for a row leaves \<^verbatim>\<open>df.apply\<close> and the analysis.
\<close>

record flight =
  latitude :: coord
  longitude :: coord
  baro_altitude :: cell

record classified =
  distance_km :: distance
  estimated_noise_db :: real
  noise_impact :: string
  distance_to_schiphol_km :: distance
  bearing :: "real option"
  schiphol_operation :: string
  approach_corridor :: string

definition classify ::
  "(coord \<times> coord \<Rightarrow> real \<times> real \<Rightarrow> error + real) \<Rightarrow> real \<times> real \<Rightarrow> flight
     \<Rightarrow> error + classified" where
  "classify geo target_coords row =
     (case calc_distance geo target_coords (latitude row) (longitude row) of
        Inl e \<Rightarrow> Inl e
      | Inr target_dkm \<Rightarrow>
          (let noise = estimate_noise (baro_altitude row) target_dkm
           in (case calc_distance geo schiphol_coords (latitude row) (longitude row) of
                 Inl e \<Rightarrow> Inl e
               | Inr schiphol_dkm \<Rightarrow>
                   (case bearing_from_schiphol (latitude row) (longitude row) of
                      Inl e \<Rightarrow> Inl e
                    | Inr b \<Rightarrow>
                        Inr \<lparr>distance_km = target_dkm,
                             estimated_noise_db = noise,
                             noise_impact = noise_impact_level (Num noise),
                             distance_to_schiphol_km = schiphol_dkm,
                             bearing = b,
                             schiphol_operation =
                               classify_operation schiphol_dkm (Some (baro_altitude row)),
                             approach_corridor = identify_corridor b\<rparr>))))"

section \<open>The noise formula of the specification\<close>

text \<open>
  The formula as the specification writes it, with its default constants:
  \<open>max(floor_db, base_db - min(altitude_ft / 1000 * alt_coeff, alt_cap)
        - min(distance_km * dist_coeff, dist_cap))\<close>.
\<close>

definition spec_noise_db :: "real \<Rightarrow> real \<Rightarrow> real" where
  "spec_noise_db altitude_ft dist_km =
     max 30 (80 - min (altitude_ft / 1000 * 5) 40 - min (dist_km * 2) 20)"

section \<open>Aircraft category: \<^verbatim>\<open>classify_aircraft_by_icao\<close>\<close>












section \<open>The operation phase\<close>

text \<open>
  C4, as the specification states it: an undefined altitude compares as not below any
  threshold and takes the else label of its distance band. Read from a frame that has
  no altitude column, the altitude is the default 0 of \<^verbatim>\<open>row.get\<close>: at 3 km the phase
  is Landing/Takeoff, the first label of the band, not Airport Vicinity.
\<close>

theorem classify_operation_counterexample:
  "classify_operation (Km 3) None = ''Landing/Takeoff''
   \<and> classify_operation (Km 3) None \<noteq> ''Airport Vicinity''"
  by (simp add: classify_operation_def)

text \<open>
  C4, amended. With a defined distance \<open>d\<close> to the airport the phase follows the
  decision table: below 5 km, Landing/Takeoff under 1000 ft and Airport Vicinity
  otherwise; from 5 to 15 km, Approach/Departure under 5000 ft and Transit (Low)
  otherwise; from 15 to 30 km, Extended Approach under 10000 ft and Transit (Medium)
  otherwise; from 30 km on, Transit (High). An altitude cell that is NaN compares as
  not below any threshold and takes the second label of its band. An altitude that is
  absent because the frame has no altitude column counts as 0 ft and takes the first
  label of its band. At 20 km and 8000 ft the phase is Extended Approach.
\<close>

theorem classify_operation_table:
  "classify_operation (Km d) (Some (Num a)) =
     (if d < 5 then (if a < 1000 then ''Landing/Takeoff'' else ''Airport Vicinity'')
      else if d < 15 then (if a < 5000 then ''Approach/Departure'' else ''Transit (Low)'')
      else if d < 30 then (if a < 10000 then ''Extended Approach'' else ''Transit (Medium)'')
      else ''Transit (High)'')
   \<and> classify_operation (Km d) (Some NaN) =
     (if d < 5 then ''Airport Vicinity''
      else if d < 15 then ''Transit (Low)''
      else if d < 30 then ''Transit (Medium)''
      else ''Transit (High)'')
   \<and> classify_operation (Km d) None =
     (if d < 5 then ''Landing/Takeoff''
      else if d < 15 then ''Approach/Departure''
      else if d < 30 then ''Extended Approach''
      else ''Transit (High)'')
   \<and> classify_operation (Km 20) (Some (Num 8000)) = ''Extended Approach''"
  by (simp add: classify_operation_def)

lemma classify_operation_no_column:
  "classify_operation dkm None = classify_operation dkm (Some (Num 0))"
  by (simp add: classify_operation_def)

section \<open>Rounding lemmas\<close>

lemma round_half_even_of_int: "round_half_even (of_int k) = k"
  by (simp add: round_half_even_def)

lemma round_half_even_mono:
  assumes "x \<le> y"
  shows "round_half_even x \<le> round_half_even y"
proof (cases "\<lfloor>x\<rfloor> = \<lfloor>y\<rfloor>")
  case True
  with assms show ?thesis
    by (auto simp: round_half_even_def Let_def)
next
  case False
  with assms have lt: "\<lfloor>x\<rfloor> < \<lfloor>y\<rfloor>"
    by (simp add: floor_mono order.not_eq_order_implies_strict)
  have "round_half_even x \<le> \<lfloor>x\<rfloor> + 1"
    by (simp add: round_half_even_def Let_def)
  moreover have "\<lfloor>y\<rfloor> \<le> round_half_even y"
    by (simp add: round_half_even_def Let_def)
  ultimately show ?thesis using lt by linarith
qed

lemma round_half_even_near: "\<bar>of_int (round_half_even x) - x\<bar> \<le> 1 / 2"
proof -
  have "of_int \<lfloor>x\<rfloor> \<le> x" "x < of_int \<lfloor>x\<rfloor> + 1" by linarith+
  then show ?thesis by (auto simp: round_half_even_def Let_def)
qed

lemma py_round1_near: "\<bar>py_round1 x - x\<bar> \<le> 1 / 20"
  using round_half_even_near [of "x * 10"] by (simp add: py_round1_def field_simps)

lemma py_round1_mono: "x \<le> y \<Longrightarrow> py_round1 x \<le> py_round1 y"
  by (simp add: py_round1_def round_half_even_mono divide_right_mono)

lemma py_round1_tenths: "py_round1 (of_int k / 10) = of_int k / 10"
  by (simp add: py_round1_def round_half_even_of_int)

lemma py_round1_30: "py_round1 30 = 30"
  using py_round1_tenths [of 300] by simp

lemma py_round1_793: "py_round1 (793 / 10) = 793 / 10"
  using py_round1_tenths [of 793] by simp

lemma estimate_noise_Num_Km:
  "estimate_noise (Num a) (Km d) =
     py_round1 (max (80 - min (max a 100 / 1000 * 5) 40 - min (max d (1 / 10) * 2) 20) 30)"
  by (simp add: estimate_noise_def Let_def)

lemma estimate_noise_at_zero: "estimate_noise (Num 0) (Km 0) = 793 / 10"
  by (simp add: estimate_noise_Num_Km py_round1_793)

section \<open>The noise estimate\<close>

text \<open>
  C3, as the specification states it: with a defined altitude and distance the estimate
  is the formula applied to the altitude and the distance, so that altitude 0 ft at
  distance 0 km gives exactly 80. The code gives 79.3 there.
\<close>

theorem estimate_noise_formula_counterexample:
  "spec_noise_db 0 0 = 80 \<and> estimate_noise (Num 0) (Km 0) = 793 / 10
   \<and> estimate_noise (Num 0) (Km 0) \<noteq> spec_noise_db 0 0"
  by (simp add: estimate_noise_at_zero spec_noise_db_def)

text \<open>
  C3, amended. With a defined altitude and distance the estimate is the formula applied
  to the altitude raised to at least 100 ft and the distance raised to at least 0.1 km,
  rounded to one decimal place. At 10000 ft and 10 km the altitude term is 40, the
  distance term is 20 and the estimate is the floor 30; at 0 ft and 0 km it is 79.3.
\<close>

theorem estimate_noise_formula:
  "estimate_noise (Num a) (Km d) = py_round1 (spec_noise_db (max a 100) (max d (1 / 10)))
   \<and> min (10000 / 1000 * 5) (40::real) = 40 \<and> min (10 * 2) (20::real) = 20
   \<and> estimate_noise (Num 10000) (Km 10) = 30
   \<and> estimate_noise (Num 0) (Km 0) = 793 / 10"
  by (simp add: estimate_noise_Num_Km spec_noise_db_def py_round1_30 py_round1_793 max.commute)

text \<open>
  C10. With a defined altitude and distance the estimator raises the altitude to at
  least 100 ft and the distance to at least 0.1 km and only then applies the
  attenuation formula: the estimate is the formula's value at the raised altitude and
  distance, rounded to one decimal place, that is a whole number of tenths within 0.05
  of it. So altitudes up to 100 ft give the estimate of 100 ft and distances up to
  0.1 km that of 0.1 km; the estimate is at most 79.3 and never the base level 80, also
  at 0 ft and 0 km, where it is 79.3.
\<close>

theorem estimate_noise_clamped:
  "estimate_noise (Num a) (Km d) = py_round1 (spec_noise_db (max a 100) (max d (1 / 10)))
   \<and> \<bar>estimate_noise (Num a) (Km d) - spec_noise_db (max a 100) (max d (1 / 10))\<bar> \<le> 1 / 20
   \<and> (\<exists>k::int. estimate_noise (Num a) (Km d) = of_int k / 10)
   \<and> estimate_noise (Num a) (Km d) = estimate_noise (Num (max a 100)) (Km (max d (1 / 10)))
   \<and> estimate_noise (Num a) (Km d) \<le> 793 / 10
   \<and> estimate_noise (Num a) (Km d) \<noteq> 80
   \<and> estimate_noise (Num 0) (Km 0) = 793 / 10"
proof -
  have formula: "estimate_noise (Num a) (Km d)
      = py_round1 (spec_noise_db (max a 100) (max d (1 / 10)))"
    by (simp add: estimate_noise_Num_Km spec_noise_db_def max.commute)
  have near: "\<bar>estimate_noise (Num a) (Km d)
      - spec_noise_db (max a 100) (max d (1 / 10))\<bar> \<le> 1 / 20"
    unfolding formula by (rule py_round1_near)
  have clamp: "estimate_noise (Num a) (Km d)
      = estimate_noise (Num (max a 100)) (Km (max d (1 / 10)))"
    by (simp add: estimate_noise_Num_Km)
  have "max (80 - min (max a 100 / 1000 * 5) 40 - min (max d (1 / 10) * 2) 20) 30
      \<le> (793 / 10 :: real)"
    by (simp add: min_def max_def)
  then have "estimate_noise (Num a) (Km d) \<le> py_round1 (793 / 10)"
    unfolding estimate_noise_Num_Km by (rule py_round1_mono)
  then have le: "estimate_noise (Num a) (Km d) \<le> 793 / 10"
    by (simp add: py_round1_793)
  have tenths: "\<exists>k::int. estimate_noise (Num a) (Km d) = of_int k / 10"
    unfolding estimate_noise_Num_Km py_round1_def by blast
  from formula near clamp le tenths show ?thesis
    by (simp add: estimate_noise_at_zero)
qed

text \<open>
  C6, as the specification states it: for every report with defined geometry the
  estimate is never below the floor 30. A report with defined coordinates, at 1 km, and
  an altitude cell that is NaN gets the estimate 0.
\<close>

theorem estimate_noise_floor_counterexample:
  "estimate_noise NaN (Km 1) = 0 \<and> estimate_noise NaN (Km 1) < 30"
  by (simp add: estimate_noise_def)

text \<open>
  C6, amended. For a fixed defined distance a higher altitude never gives a higher
  estimate, for a fixed defined altitude a longer distance never gives a higher
  estimate, and for every report with a defined altitude and a defined distance the
  estimate is at least 30.
\<close>

theorem estimate_noise_monotone:
  "(a1 \<le> a2 \<longrightarrow> estimate_noise (Num a2) (Km d) \<le> estimate_noise (Num a1) (Km d))
   \<and> (d1 \<le> d2 \<longrightarrow> estimate_noise (Num a) (Km d2) \<le> estimate_noise (Num a) (Km d1))
   \<and> 30 \<le> estimate_noise (Num a) (Km d)"
proof (intro conjI impI)
  assume "a1 \<le> a2"
  then have "max (80 - min (max a2 100 / 1000 * 5) 40 - min (max d (1 / 10) * 2) 20) 30
      \<le> max (80 - min (max a1 100 / 1000 * 5) 40 - min (max d (1 / 10) * 2) 20) 30"
    by (simp add: min_def max_def)
  then show "estimate_noise (Num a2) (Km d) \<le> estimate_noise (Num a1) (Km d)"
    unfolding estimate_noise_Num_Km by (rule py_round1_mono)
next
  assume "d1 \<le> d2"
  then have "max (80 - min (max a 100 / 1000 * 5) 40 - min (max d2 (1 / 10) * 2) 20) 30
      \<le> max (80 - min (max a 100 / 1000 * 5) 40 - min (max d1 (1 / 10) * 2) 20) 30"
    by (simp add: min_def max_def)
  then show "estimate_noise (Num a) (Km d2) \<le> estimate_noise (Num a) (Km d1)"
    unfolding estimate_noise_Num_Km by (rule py_round1_mono)
next
  have "py_round1 30
      \<le> py_round1 (max (80 - min (max a 100 / 1000 * 5) 40 - min (max d (1 / 10) * 2) 20) 30)"
    by (rule py_round1_mono) simp
  then show "30 \<le> estimate_noise (Num a) (Km d)"
    by (simp add: estimate_noise_Num_Km py_round1_30)
qed

theorem estimate_noise_monotone_witness:
  "(1000::real) \<le> 2000
   \<and> estimate_noise (Num 2000) (Km 3) \<le> estimate_noise (Num 1000) (Km 3)
   \<and> (3::real) \<le> 4
   \<and> estimate_noise (Num 1000) (Km 4) \<le> estimate_noise (Num 1000) (Km 3)
   \<and> 30 \<le> estimate_noise (Num 1000) (Km 3)"
  using estimate_noise_monotone [of 1000 2000 3 3 4 1000] by simp

section \<open>The noise tier\<close>

text \<open>
  C7, as the specification states it: an undefined noise value has an undefined tier,
  none of the four categories. On NaN the function answers Minimal Impact.
\<close>

theorem noise_impact_level_counterexample:
  "noise_impact_level NaN = ''Minimal Impact''"
  by (simp add: noise_impact_level_def)

text \<open>
  C7, amended. A defined noise value \<open>n\<close> is High Impact from 65 on, Moderate Impact
  from 55 to below 65, Low Impact from 45 to below 55 and Minimal Impact below 45. There
  is no undefined tier: NaN fails every comparison and is Minimal Impact.
\<close>

theorem noise_impact_level_tiers:
  "noise_impact_level (Num n) =
     (if 65 \<le> n then ''High Impact''
      else if 55 \<le> n then ''Moderate Impact''
      else if 45 \<le> n then ''Low Impact''
      else ''Minimal Impact'')
   \<and> noise_impact_level NaN = ''Minimal Impact''"
  by (simp add: noise_impact_level_def)

section \<open>The approach corridor\<close>

text \<open>
  C2, as the specification states it: eight octants of 45 degrees, a boundary bearing
  belonging to the clockwise octant, so that bearing 45.0 is northeast, and the arc
  from 315 to 360 outside north's 45 degrees. The table has seven corridors, north is
  tested first with both ends included, and there is no northwest.
\<close>

theorem identify_corridor_counterexample:
  "identify_corridor (Some 45) = ''north'' \<and> identify_corridor (Some 45) \<noteq> ''northeast''
   \<and> length approach_corridors = 7 \<and> ''northwest'' \<notin> set (map fst approach_corridors)"
  by (simp add: identify_corridor_def approach_corridors_def)

text \<open>
  C2, amended. Every defined bearing is assigned exactly one of the seven corridors of
  the table (north, northeast, east, southeast, south, southwest, west), never Other:
  north for bearings from 315 up and for bearings up to 45 inclusive (90 degrees),
  northeast above 45 up to 90, east above 90 up to 135, southeast above 135 up to 180,
  south above 180 up to 225, southwest above 225 up to 270, and west above 270 and below
  315. A bearing on a boundary belongs to the corridor declared first in the table: at
  45, 90, 135, 180, 225 and 270 that is the corridor ending there, so that bearings 0,
  44.9 and 45.0 are all north; at 315 it is north, the corridor beginning there, and
  314.9 is west.
\<close>

theorem identify_corridor_sectors:
  "identify_corridor (Some b) =
     (if 315 \<le> b \<or> b \<le> 45 then ''north''
      else if b \<le> 90 then ''northeast''
      else if b \<le> 135 then ''east''
      else if b \<le> 180 then ''southeast''
      else if b \<le> 225 then ''south''
      else if b \<le> 270 then ''southwest''
      else ''west'')
   \<and> map fst approach_corridors =
       [''north'', ''northeast'', ''east'', ''southeast'', ''south'', ''southwest'', ''west'']
   \<and> identify_corridor (Some 0) = ''north''
   \<and> identify_corridor (Some (449 / 10)) = ''north''
   \<and> identify_corridor (Some 45) = ''north''
   \<and> identify_corridor (Some (3149 / 10)) = ''west''
   \<and> identify_corridor (Some 315) = ''north''"
  by (simp add: identify_corridor_def approach_corridors_def)

section \<open>Reports without coordinates\<close>

lemma calc_distance_isna:
  "coord_isna lat \<or> coord_isna lon \<Longrightarrow> calc_distance geo t lat lon = Inr Infinity"
  by (simp add: calc_distance_def)

lemma calc_distance_Coord:
  "geo (Coord la, Coord lo) t = Inr k \<Longrightarrow>
   calc_distance geo t (Coord la) (Coord lo) = Inr (Km k)"
  by (simp add: calc_distance_def)

lemma bearing_from_schiphol_isna:
  "coord_isna lat \<or> coord_isna lon \<Longrightarrow> bearing_from_schiphol lat lon = Inr None"
  by (simp add: bearing_from_schiphol_def)

lemma bearing_from_schiphol_Coord:
  "\<exists>b. bearing_from_schiphol (Coord la) (Coord lo) = Inr (Some b)"
  by (simp add: bearing_from_schiphol_def Let_def)

lemma bearing_from_schiphol_isinf:
  "\<not> coord_isna lat \<Longrightarrow> \<not> coord_isna lon \<Longrightarrow> coord_isinf lat \<or> coord_isinf lon \<Longrightarrow>
   bearing_from_schiphol lat lon = Inl ValueError"
  by (simp add: bearing_from_schiphol_def)

lemma estimate_noise_Infinity: "estimate_noise alt Infinity = 0"
  by (simp add: estimate_noise_def)

lemma classify_isna:
  assumes "coord_isna (latitude r) \<or> coord_isna (longitude r)"
  shows "classify geo t r =
     Inr \<lparr>distance_km = Infinity, estimated_noise_db = 0, noise_impact = ''Minimal Impact'',
          distance_to_schiphol_km = Infinity, bearing = None,
          schiphol_operation = ''Unknown'', approach_corridor = ''Unknown''\<rparr>"
  using assms
  by (simp add: classify_def Let_def calc_distance_isna bearing_from_schiphol_isna
      estimate_noise_Infinity noise_impact_level_def classify_operation_def
      identify_corridor_def)

text \<open>
  C1, as the specification states it: without a latitude or a longitude the noise
  estimate and the tier are undefined, never zero and never Minimal. The estimate of
  such a report is 0 and its tier is Minimal Impact.
\<close>

theorem classify_undefined_coordinates_counterexample:
  "classify (\<lambda>p q. Inr 0) (52395 / 1000, 4915 / 1000)
       \<lparr>latitude = CoordNaN, longitude = Coord (49 / 10), baro_altitude = Num 2500\<rparr>
     = Inr \<lparr>distance_km = Infinity, estimated_noise_db = 0,
            noise_impact = ''Minimal Impact'',
            distance_to_schiphol_km = Infinity, bearing = None,
            schiphol_operation = ''Unknown'', approach_corridor = ''Unknown''\<rparr>"
  by (simp add: classify_isna)

text \<open>
  C1, amended. For every report whose latitude or longitude is undefined, the
  classification returns a row in which both distances are the sentinel infinity, the
  bearing is None, the operation phase and the corridor are Unknown, and the noise
  estimate is 0 with the tier Minimal Impact.
\<close>

theorem classify_undefined_coordinates:
  "coord_isna (latitude r) \<or> coord_isna (longitude r) \<Longrightarrow>
   (\<exists>c. classify geo t r = Inr c
      \<and> distance_km c = Infinity
      \<and> distance_to_schiphol_km c = Infinity
      \<and> bearing c = None
      \<and> schiphol_operation c = ''Unknown''
      \<and> approach_corridor c = ''Unknown''
      \<and> estimated_noise_db c = 0
      \<and> noise_impact c = ''Minimal Impact'')"
  by (simp add: classify_isna)

theorem classify_undefined_coordinates_witness:
  "coord_isna (latitude
       \<lparr>latitude = CoordNaN, longitude = Coord (49 / 10), baro_altitude = Num 2500\<rparr>)
   \<and> (\<exists>c. classify (\<lambda>p q. Inr 0) (52395 / 1000, 4915 / 1000)
            \<lparr>latitude = CoordNaN, longitude = Coord (49 / 10), baro_altitude = Num 2500\<rparr>
          = Inr c
        \<and> distance_km c = Infinity \<and> bearing c = None \<and> estimated_noise_db c = 0)"
  using classify_undefined_coordinates
    [of "\<lparr>latitude = CoordNaN, longitude = Coord (49 / 10), baro_altitude = Num 2500\<rparr>"
        "\<lambda>p q. Inr 0" "(52395 / 1000, 4915 / 1000)"]
  by auto

section \<open>Reports the classification fails on\<close>

text \<open>
  C8, as the specification states it: the classification never raises for a fault of
  one record, whatever the report. An infinite latitude is not NaN, so
  \<^verbatim>\<open>pd.isna\<close> lets it through, and the bearing's \<^verbatim>\<open>math.cos\<close> raises
  \<^verbatim>\<open>ValueError\<close>, also when the distance function accepts the point.
\<close>

theorem classify_never_fails_counterexample:
  "bearing_from_schiphol CoordPosInf (Coord (49 / 10)) = Inl ValueError
   \<and> classify (\<lambda>p q. Inr 0) (52395 / 1000, 4915 / 1000)
        \<lparr>latitude = CoordPosInf, longitude = Coord (49 / 10), baro_altitude = Num 2500\<rparr>
     = Inl ValueError"
  by (simp add: classify_def bearing_from_schiphol_def calc_distance_def)

text \<open>
  C8, amended. The classification does not raise, and returns a classified row, for
  every report in which a coordinate is NaN, and for every report whose coordinates are
  both numbers that the distance function accepts; the altitude may be NaN in both. In
  the first case the row carries the markers (both distances the sentinel infinity, the
  bearing None), in the second both distances and the bearing are numbers. A coordinate
  that is NaN is the same as a missing one, and it never reaches the distance or the
  bearing arithmetic: any two reports lacking a coordinate get the same row, whatever
  the distance function (also one that always raises), the target, the other
  coordinate and the altitude are.
\<close>

theorem classify_never_fails:
  "((coord_isna (latitude r) \<or> coord_isna (longitude r))
      \<and> (coord_isna (latitude r') \<or> coord_isna (longitude r'))
     \<longrightarrow> (\<exists>c. classify geo t r = Inr c \<and> classify geo' t' r' = Inr c
            \<and> distance_km c = Infinity \<and> distance_to_schiphol_km c = Infinity
            \<and> bearing c = None))
   \<and> (latitude r = Coord la \<and> longitude r = Coord lo
      \<and> geo (Coord la, Coord lo) t = Inr k1
      \<and> geo (Coord la, Coord lo) schiphol_coords = Inr k2
     \<longrightarrow> (\<exists>c b. classify geo t r = Inr c
            \<and> distance_km c = Km k1 \<and> distance_to_schiphol_km c = Km k2
            \<and> bearing c = Some b))"
proof (intro conjI impI)
  assume "(coord_isna (latitude r) \<or> coord_isna (longitude r))
      \<and> (coord_isna (latitude r') \<or> coord_isna (longitude r'))"
  then show "\<exists>c. classify geo t r = Inr c \<and> classify geo' t' r' = Inr c
      \<and> distance_km c = Infinity \<and> distance_to_schiphol_km c = Infinity \<and> bearing c = None"
    by (simp add: classify_isna)
next
  assume a: "latitude r = Coord la \<and> longitude r = Coord lo
      \<and> geo (Coord la, Coord lo) t = Inr k1
      \<and> geo (Coord la, Coord lo) schiphol_coords = Inr k2"
  obtain b where b: "bearing_from_schiphol (Coord la) (Coord lo) = Inr (Some b)"
    using bearing_from_schiphol_Coord by blast
  from a b show "\<exists>c b. classify geo t r = Inr c
      \<and> distance_km c = Km k1 \<and> distance_to_schiphol_km c = Km k2 \<and> bearing c = Some b"
    by (simp add: classify_def calc_distance_Coord Let_def)
qed

theorem classify_never_fails_witness:
  "coord_isna (latitude
       \<lparr>latitude = CoordNaN, longitude = Coord (49 / 10), baro_altitude = Num 2500\<rparr>)
   \<and> coord_isna (longitude
       \<lparr>latitude = Coord (524 / 10), longitude = CoordNaN, baro_altitude = NaN\<rparr>)
   \<and> (\<exists>c. classify (\<lambda>p q. Inl ValueError) (52395 / 1000, 4915 / 1000)
            \<lparr>latitude = CoordNaN, longitude = Coord (49 / 10), baro_altitude = Num 2500\<rparr>
          = Inr c
        \<and> classify (\<lambda>p q. Inr 1) (0, 0)
            \<lparr>latitude = Coord (524 / 10), longitude = CoordNaN, baro_altitude = NaN\<rparr>
          = Inr c
        \<and> distance_km c = Infinity \<and> distance_to_schiphol_km c = Infinity
        \<and> bearing c = None)
   \<and> latitude \<lparr>latitude = Coord (524 / 10), longitude = Coord (49 / 10), baro_altitude = NaN\<rparr>
       = Coord (524 / 10)
   \<and> (\<exists>c b. classify (\<lambda>p q. Inr 12) (52395 / 1000, 4915 / 1000)
            \<lparr>latitude = Coord (524 / 10), longitude = Coord (49 / 10), baro_altitude = NaN\<rparr>
          = Inr c
        \<and> distance_km c = Km 12 \<and> distance_to_schiphol_km c = Km 12 \<and> bearing c = Some b)"
  using classify_never_fails
    [of "\<lparr>latitude = CoordNaN, longitude = Coord (49 / 10), baro_altitude = Num 2500\<rparr>"
        "\<lparr>latitude = Coord (524 / 10), longitude = CoordNaN, baro_altitude = NaN\<rparr>"
        "\<lambda>p q. Inl ValueError" "(52395 / 1000, 4915 / 1000)" "\<lambda>p q. Inr 1" "(0, 0)"]
    classify_never_fails
    [of "\<lparr>latitude = Coord (524 / 10), longitude = Coord (49 / 10), baro_altitude = NaN\<rparr>"
        "\<lparr>latitude = Coord (524 / 10), longitude = Coord (49 / 10), baro_altitude = NaN\<rparr>"
        "\<lambda>p q. Inr 12" "(52395 / 1000, 4915 / 1000)" "\<lambda>p q. Inr 12"
        "(52395 / 1000, 4915 / 1000)" "524 / 10" "49 / 10" 12 12]
  by simp

section \<open>The aircraft category\<close>





section \<open>The bearing\<close>

lemma sin_lower_half:
  fixes t :: real
  assumes "0 \<le> t" "t \<le> 1"
  shows "t / 2 \<le> sin t"
proof -
  have "\<bar>sin t - (\<Sum>m<2. sin_coeff m * t ^ m)\<bar> \<le> inverse (fact 2) * \<bar>t\<bar> ^ 2"
    by (rule Maclaurin_sin_bound)
  moreover have "(\<Sum>m<2. sin_coeff m * t ^ m) = t"
    by (simp add: numeral_2_eq_2 sin_coeff_def)
  ultimately have "\<bar>sin t - t\<bar> \<le> t\<^sup>2 / 2"
    by (simp add: field_simps)
  then have "t - t\<^sup>2 / 2 \<le> sin t" by linarith
  moreover have "t\<^sup>2 \<le> t"
    using assms by (simp add: power2_eq_square mult_left_le)
  ultimately show ?thesis by linarith
qed

lemma tan_lower_half:
  fixes t :: real
  assumes "0 \<le> t" "t \<le> 1 / 2"
  shows "t / 2 \<le> tan t"
proof -
  have t1: "t \<le> 1" using assms by simp
  have t: "t < pi / 2" using assms pi_ge_two by linarith
  have c: "0 < cos t" using assms t by (intro cos_gt_zero_pi) linarith+
  have s: "0 \<le> sin t" using sin_lower_half [OF assms(1) t1] assms by linarith
  have "sin t \<le> sin t / cos t"
    using c s cos_le_one [of t] mult_left_le_one_le [of "sin t" "cos t"]
    by (simp add: field_simps)
  then have "sin t \<le> tan t" by (simp add: tan_def)
  with sin_lower_half [OF assms(1) t1] show ?thesis by linarith
qed

lemma py_mod_id: "0 \<le> v \<Longrightarrow> v < 360 \<Longrightarrow> py_mod v 360 = v"
proof -
  assume "0 \<le> v" "v < 360"
  then have "\<lfloor>v / 360\<rfloor> = 0" by (simp add: floor_eq_iff)
  then show ?thesis by (simp add: py_mod_def)
qed

lemma round_half_even_up:
  assumes "of_int k - 1 / 2 < v" "v < of_int k"
  shows "round_half_even v = k"
proof -
  have f: "\<lfloor>v\<rfloor> = k - 1" using assms by (simp add: floor_eq_iff)
  show ?thesis using assms by (simp add: round_half_even_def f)
qed

lemma py_round1_up_360: "7199 / 20 < v \<Longrightarrow> v < 360 \<Longrightarrow> py_round1 v = 360"
  using round_half_even_up [of 3600 "v * 10"] by (simp add: py_round1_def)

lemma py_mod_360_range: "0 \<le> py_mod v 360 \<and> py_mod v 360 < 360"
proof -
  have "of_int \<lfloor>v / 360\<rfloor> \<le> v / 360" "v / 360 < of_int \<lfloor>v / 360\<rfloor> + 1"
    by linarith+
  then show ?thesis by (simp add: py_mod_def field_simps)
qed

lemma bearing_from_schiphol_range:
  assumes "bearing_from_schiphol lat lon = Inr (Some b)"
  shows "0 \<le> b \<and> b \<le> 360"
proof -
  obtain v where b: "b = py_round1 (py_mod v 360)"
    using assms by (auto simp: bearing_from_schiphol_def Let_def split: if_splits)
  have "py_round1 0 \<le> py_round1 (py_mod v 360)" "py_round1 (py_mod v 360) \<le> py_round1 360"
    using py_mod_360_range [of v] by (auto intro!: py_round1_mono)
  moreover have "py_round1 0 = 0" "py_round1 360 = 360"
    using py_round1_tenths [of 0] py_round1_tenths [of 3600] by simp_all
  ultimately show ?thesis by (simp add: b)
qed

text \<open>
  C5. The claim: with defined, valid coordinates the bearing lies in the half-open
  interval from 0 to 360, and 360 itself is never produced. The code reduces the angle
  modulo 360 and rounds afterwards: a report 0.1 degree north and 0.00001 degree west
  of the airport, at latitude 52.4105 and longitude 4.76829, has the angle 359.9965...,
  which \<^verbatim>\<open>round(bearing, 1)\<close> turns into 360.0.
\<close>

theorem bearing_rounds_to_360:
  "bearing_from_schiphol (Coord (524105 / 10000)) (Coord (476829 / 100000)) = Inr (Some 360)"
proof -
  define a :: real where "a = radians (523105 / 10000)"
  define b :: real where "b = radians (524105 / 10000)"
  define d :: real where "d = radians (476829 / 100000) - radians (47683 / 10000)"
  define y where "y = sin d * cos b"
  define x where "x = cos a * sin b - sin a * cos b * cos d"
  define e :: real where "e = pi / 18000000"
  have pi2: "2 \<le> pi" by (rule pi_ge_two)
  have pi4: "pi < 4" by (rule pi_less_4)
  have e_pos: "0 < e" by (simp add: e_def)
  have e_small: "e < 1" using pi4 by (simp add: e_def)
  have d_eq: "d = - e" by (simp add: d_def e_def radians_def)
  have sin_e: "0 < sin e" "sin e \<le> e"
    using e_pos e_small pi2 by (auto intro: sin_gt_zero sin_x_le_x)
  have b_rng: "0 < b" "b < pi / 2" by (simp_all add: b_def radians_def)
  have a_rng: "0 < a" "a < pi / 2" by (simp_all add: a_def radians_def)
  have cos_b: "0 < cos b" "cos b \<le> 1"
    using b_rng by (auto intro: cos_gt_zero)
  have y_neg: "y < 0"
    using mult_pos_pos [OF sin_e(1) cos_b(1)] by (simp add: y_def d_eq)
  have y_small: "- y \<le> e"
  proof -
    have "sin e * cos b \<le> e * 1"
      using sin_e cos_b by (intro mult_mono) auto
    then show ?thesis by (simp add: y_def d_eq)
  qed
  have ba: "b - a = pi / 1800" by (simp add: a_def b_def radians_def)
  have sin_a: "0 \<le> sin a" using a_rng by (intro sin_ge_zero) linarith+
  have "x = sin (b - a) + sin a * cos b * (1 - cos d)"
    by (simp add: x_def sin_diff algebra_simps)
  moreover have "0 \<le> sin a * cos b * (1 - cos d)"
    using sin_a cos_b by simp
  moreover have "(pi / 1800) / 2 \<le> sin (pi / 1800)"
    using pi4 by (intro sin_lower_half) auto
  ultimately have x_big: "pi / 3600 \<le> x" by (simp add: ba)
  then have x_pos: "0 < x" using pi_gt_zero by linarith
  define z where "z = - y / x"
  have z_pos: "0 < z" using y_neg x_pos by (simp add: z_def divide_neg_pos)
  have "z \<le> e / (pi / 3600)"
    unfolding z_def using y_small x_big x_pos y_neg
    by (intro frac_le) auto
  then have z_small: "z \<le> 1 / 5000" by (simp add: e_def)
  have "(pi / 3600) / 2 \<le> tan (pi / 3600)"
    using pi4 by (intro tan_lower_half) auto
  then have "z < tan (pi / 3600)" using z_small pi2 by linarith
  then have "arctan z < arctan (tan (pi / 3600))" by (rule arctan_monotone)
  then have at_small: "arctan z < pi / 3600"
    using pi_gt_zero by (simp add: arctan_tan)
  have at_pos: "0 < arctan z" using z_pos by simp
  have "y / x = - z" by (simp add: z_def)
  then have at: "atan2 y x = - arctan z"
    using x_pos by (simp add: atan2_def arctan_minus)
  have deg_neg: "degrees (atan2 y x) < 0"
    using at_pos by (simp add: at degrees_def field_simps)
  have deg_small: "- (1 / 20) < degrees (atan2 y x)"
    using at_small by (simp add: at degrees_def field_simps)
  have "py_mod (degrees (atan2 y x) + 360) 360 = degrees (atan2 y x) + 360"
    using deg_neg deg_small by (intro py_mod_id) auto
  moreover have "py_round1 (degrees (atan2 y x) + 360) = 360"
    using deg_neg deg_small by (intro py_round1_up_360) auto
  ultimately show ?thesis
    by (simp add: bearing_from_schiphol_def schiphol_coords_def Let_def
        a_def b_def d_def x_def y_def)
qed

end
